theory Spec2Isabelle
  imports Main "HOL-Library.Sublist"
begin

section \<open>The uploader (uploader.py) as a shallow embedding\<close>

text \<open>
  The program lists a backup directory, uploads every matching file to one of two
  remote stores (an archive vault or a bucket), records archive identifiers in a
  history file and removes the local copies.

  Modelling decisions:
  \<^item> A Python \<open>str\<close> is a \<open>string\<close> (its characters are the code points 0..255);
    a \<open>bytes\<close> value is a \<open>string\<close> too.
  \<^item> The local file system is a map from path strings to the contents of regular
    files, and a set of paths that are directories; a path in neither does not
    exist. The listing that \<open>os.listdir\<close> returns is a separate component of
    the world.
  \<^item> Opening a path for reading gives a file object for a regular file, raises
    \<open>FileNotFoundError\<close> for a path that does not exist and \<open>IsADirectoryError\<close>
    for a directory. The source catches the first only.
  \<^item> The history file is taken to be writable: opening it for appending does
    not fail.
  \<^item> The two remote services are functions from the arguments of the call to
    its outcome. A call (the construction of the client and the upload made with
    it, which the source puts in one \<open>try\<close> block) returns (\<open>Inr\<close>), raises
    \<open>ClientError\<close>, which the source catches, or raises any other exception,
    which the source does not catch: the SDK's \<open>upload_file\<close> reports a failed
    transfer as \<open>S3UploadFailedError\<close>, and every call can fail with a connection
    or configuration error; none of these is a \<open>ClientError\<close>.
  \<^item> Everything observable (log records, file opens and closes, remote calls,
    writes to the history file, removals) is appended to a trace in the world.
  \<^item> An exception that leaves a function is \<open>Inl\<close> of the function's result.
  \<^item> A Python \<open>set\<close> of paths is a duplicate-free list; the loops over it run in
    list order. The order of \<open>os.listdir\<close> is arbitrary, and every theorem
    below holds for every order.
\<close>

subsection \<open>Values, events and the world\<close>

datatype level = DEBUG | INFO | WARNING | ERROR

text \<open>
  The values a response dictionary holds under its keys, as far as the program
  looks at them: the archive identifier is a string, and \<open>dict.get\<close> gives
  \<open>None\<close> for a key that is missing.
\<close>

datatype pyval = PyNone | PyStr string

type_synonym pydict = "(string \<times> pyval) list"

text \<open>
  The argument \<open>src_data\<close> of \<open>upload_to_glacier\<close>: bytes, a path string, or a
  value of another type (of which only the type's name matters).
\<close>

datatype src_data = SrcBytes string | SrcStr string | SrcOther string

text \<open>
  What \<open>read_object_data\<close> returns besides \<open>None\<close>: the bytes themselves, or
  a file object open for binary reading (its path and the file's contents).
\<close>

datatype object_data = RawBytes string | FileObj string string

text \<open>
  The exceptions that leave a function of the program: the two the program
  raises itself, the one \<open>open\<close> raises that the program does not catch, and any
  exception of a remote call that is not a \<open>ClientError\<close> (by its class name).
\<close>

datatype exn =
    UnboundLocalError string
  | SystemExit nat
  | IsADirectoryError string
  | OtherException string

text \<open>
  How a remote call fails: with \<open>ClientError\<close> (and its message), or with an
  exception of another class (and the name of the class).
\<close>

datatype remote_error = ClientError string | OtherError string

datatype event =
    Log level string
  | FileOpened string
  | FileClosed string
  | HistoryAppended string string
  | FileRemoved string
  | GlacierUpload string src_data string "remote_error + pydict"
  | S3Upload string string string "remote_error + unit"

record world =
  fs :: "string \<rightharpoonup> string"
  dirs :: "string set"
  listdir :: "string \<Rightarrow> string list"
  trace :: "event list"

text \<open>
  The remote services. \<open>glacier_upload_archive r access secret vault description body\<close>
  and \<open>s3_upload_file r access secret file_name bucket object_name\<close>.
\<close>

record remote =
  glacier_upload_archive ::
    "string \<Rightarrow> string \<Rightarrow> string \<Rightarrow> src_data \<Rightarrow> string \<Rightarrow> remote_error + pydict"
  s3_upload_file ::
    "string \<Rightarrow> string \<Rightarrow> string \<Rightarrow> string \<Rightarrow> string \<Rightarrow> remote_error + unit"

record args =
  access_key :: string
  secret_key :: string
  vault_name :: string
  bucket_name :: string
  backup_dir :: string
  history_file :: string
  backup_ext :: string
  mode :: string

definition emit :: "event \<Rightarrow> world \<Rightarrow> world" where
  "emit e w = w\<lparr>trace := trace w @ [e]\<rparr>"

definition logging :: "level \<Rightarrow> string \<Rightarrow> world \<Rightarrow> world" where
  "logging lvl msg w = emit (Log lvl msg) w"

subsection \<open>Library functions the program calls\<close>

text \<open>\<open>posixpath.join\<close> with two arguments.\<close>

definition path_join :: "string \<Rightarrow> string \<Rightarrow> string" where
  "path_join a b =
     (if prefix ''/'' b then b
      else if a = [] \<or> suffix ''/'' a then a @ b
      else a @ ''/'' @ b)"

text \<open>\<open>str.rfind\<close> of one character: the last index of it, or \<open>-1\<close>.\<close>

fun rfind :: "char \<Rightarrow> string \<Rightarrow> int" where
  "rfind c [] = -1"
| "rfind c (x # xs) =
     (let r = rfind c xs in
      if 0 \<le> r then r + 1 else if x = c then 0 else -1)"

text \<open>\<open>posixpath.basename\<close>: \<open>i = p.rfind('/') + 1; return p[i:]\<close>.\<close>

definition basename :: "string \<Rightarrow> string" where
  "basename p = drop (nat (rfind CHR ''/'' p + 1)) p"

definition hex_digit :: "nat \<Rightarrow> char" where
  "hex_digit n = ''0123456789abcdef'' ! (n mod 16)"

text \<open>\<open>'\\u{0:04x}'.format(n)\<close>\<close>

definition u_escape :: "nat \<Rightarrow> string" where
  "u_escape n =
     [CHR 0x5C, CHR ''u'', hex_digit (n div 4096), hex_digit (n div 256),
      hex_digit (n div 16), hex_digit n]"

text \<open>
  The replacement \<open>json\<close> makes for one character of a string
  (\<open>ensure_ascii\<close> is on by default): the short escapes, \<open>\\uXXXX\<close> for every other
  character outside \<open>' '..'~'\<close>, the character itself otherwise.
\<close>

definition json_escape_char :: "char \<Rightarrow> string" where
  "json_escape_char c =
     (if c = CHR 0x5C then [CHR 0x5C, CHR 0x5C]
      else if c = CHR 0x22 then [CHR 0x5C, CHR 0x22]
      else if c = CHR 0x08 then [CHR 0x5C, CHR ''b'']
      else if c = CHR 0x0C then [CHR 0x5C, CHR ''f'']
      else if c = CHR 0x0A then [CHR 0x5C, CHR ''n'']
      else if c = CHR 0x0D then [CHR 0x5C, CHR ''r'']
      else if c = CHR 0x09 then [CHR 0x5C, CHR ''t'']
      else if (of_char c :: nat) < 0x20 \<or> 0x7E < (of_char c :: nat)
        then u_escape (of_char c)
      else [c])"

text \<open>\<open>json.dumps\<close> of \<open>None\<close> and of a string.\<close>

fun json_dumps :: "pyval \<Rightarrow> string" where
  "json_dumps PyNone = ''null''"
| "json_dumps (PyStr s) = [CHR 0x22] @ concat (map json_escape_char s) @ [CHR 0x22]"

text \<open>\<open>dict.get(key)\<close>: the value, \<open>None\<close> for a missing key.\<close>

definition dict_get :: "pydict \<Rightarrow> string \<Rightarrow> pyval" where
  "dict_get d k = (case map_of d k of None \<Rightarrow> PyNone | Some v \<Rightarrow> v)"

text \<open>
  \<open>repr\<close> of a bytes value, which is how an f-string formats it: single quotes
  unless the value has a single quote and no double quote.
\<close>

definition bytes_repr_char :: "char \<Rightarrow> char \<Rightarrow> string" where
  "bytes_repr_char quote c =
     (if c = quote \<or> c = CHR 0x5C then [CHR 0x5C, c]
      else if c = CHR 0x09 then [CHR 0x5C, CHR ''t'']
      else if c = CHR 0x0A then [CHR 0x5C, CHR ''n'']
      else if c = CHR 0x0D then [CHR 0x5C, CHR ''r'']
      else if (of_char c :: nat) < 0x20 \<or> 0x7F \<le> (of_char c :: nat)
        then [CHR 0x5C, CHR ''x'', hex_digit (of_char c div 16), hex_digit (of_char c)]
      else [c])"

definition bytes_repr :: "string \<Rightarrow> string" where
  "bytes_repr b =
     (let quote = (if CHR 0x27 \<in> set b \<and> CHR 0x22 \<notin> set b then CHR 0x22 else CHR 0x27)
      in [CHR ''b'', quote] @ concat (map (bytes_repr_char quote) b) @ [quote])"

text \<open>
  How an f-string formats \<open>src_data\<close> and \<open>type(src_data)\<close>. The program
  formats \<open>src_data\<close> itself only after a remote call, which a value that is
  neither bytes nor a string never reaches; the third equation of \<open>format_src\<close>
  makes the function total and is never used.
\<close>

fun format_src :: "src_data \<Rightarrow> string" where
  "format_src (SrcBytes b) = bytes_repr b"
| "format_src (SrcStr s) = s"
| "format_src (SrcOther t) = ''<'' @ t @ '' object>''"

fun format_type :: "src_data \<Rightarrow> string" where
  "format_type (SrcBytes b) = ''<class '' @ [CHR 0x27] @ ''bytes'' @ [CHR 0x27] @ ''>''"
| "format_type (SrcStr s) = ''<class '' @ [CHR 0x27] @ ''str'' @ [CHR 0x27] @ ''>''"
| "format_type (SrcOther t) = ''<class '' @ [CHR 0x27] @ t @ [CHR 0x27] @ ''>''"

text \<open>The file system: reading, appending, testing and removing.\<close>

definition file_content :: "world \<Rightarrow> string \<Rightarrow> string" where
  "file_content w p = (case fs w p of None \<Rightarrow> [] | Some c \<Rightarrow> c)"

text \<open>\<open>open(p, 'a')\<close>, one write, close: the file is created when it is missing.\<close>

definition append_file :: "string \<Rightarrow> string \<Rightarrow> world \<Rightarrow> world" where
  "append_file p s w =
     emit (HistoryAppended p s) (w\<lparr>fs := (fs w)(p \<mapsto> file_content w p @ s)\<rparr>)"

definition isfile :: "world \<Rightarrow> string \<Rightarrow> bool" where
  "isfile w p = (fs w p \<noteq> None)"

definition os_remove :: "string \<Rightarrow> world \<Rightarrow> world" where
  "os_remove p w = emit (FileRemoved p) (w\<lparr>fs := (fs w)(p := None)\<rparr>)"

subsection \<open>The program\<close>

text \<open>
  \<^verbatim>\<open>
  def save_history(history_file_name, data):
      archive_id = data.get('archiveId')
      with open(history_file_name, 'a') as hist_file:
          json.dump(archive_id, hist_file)
  \<close>
\<close>

definition save_history :: "string \<Rightarrow> pydict \<Rightarrow> world \<Rightarrow> world" where
  "save_history history_file_name data w =
     (let archive_id = dict_get data ''archiveId''
      in append_file history_file_name (json_dumps archive_id) w)"

text \<open>\<open>backups.add(name)\<close> on the duplicate-free list that stands for the set.\<close>

definition set_add :: "string \<Rightarrow> string list \<Rightarrow> string list" where
  "set_add x xs = (if x \<in> set xs then xs else xs @ [x])"

text \<open>
  \<^verbatim>\<open>
  def find_backup(backup_dir, backup_ext):
      backups = set()
      for file in os.listdir(backup_dir):
          if not backup_ext or file.endswith(backup_ext):
              backup_file_name = os.path.join(backup_dir, file)
              backups.add(backup_file_name)
              logging.debug(f'Backup file {backup_file_name} added.')
      return backups
  \<close>
  The loop, over the entries still to visit, with the set and the world so far.
\<close>

fun find_backup_loop ::
  "string \<Rightarrow> string \<Rightarrow> string list \<Rightarrow> string list \<Rightarrow> world \<Rightarrow> string list \<times> world" where
  "find_backup_loop d e [] backups w = (backups, w)"
| "find_backup_loop d e (file # rest) backups w =
     (if e = [] \<or> suffix e file then
        (let backup_file_name = path_join d file
         in find_backup_loop d e rest (set_add backup_file_name backups)
              (logging DEBUG (''Backup file '' @ backup_file_name @ '' added.'') w))
      else find_backup_loop d e rest backups w)"

definition find_backup :: "string \<Rightarrow> string \<Rightarrow> world \<Rightarrow> string list \<times> world" where
  "find_backup d e w = find_backup_loop d e (listdir w d) [] w"

text \<open>
  \<^verbatim>\<open>
  def remove_backup(file_name):
      logging.debug(f'Trying to remove file {file_name}')
      if os.path.isfile(file_name):
          os.remove(file_name)
          logging.debug(f'File {file_name} removed')
      else:
          logging.error(f'File {file_name} not found')
  \<close>
\<close>

definition remove_backup :: "string \<Rightarrow> world \<Rightarrow> world" where
  "remove_backup file_name w =
     (let w1 = logging DEBUG (''Trying to remove file '' @ file_name) w
      in if isfile w1 file_name
         then logging DEBUG (''File '' @ file_name @ '' removed'') (os_remove file_name w1)
         else logging ERROR (''File '' @ file_name @ '' not found'') w1)"

text \<open>
  \<^verbatim>\<open>
  def read_object_data(src_data):
      if isinstance(src_data, bytes):
          return src_data
      if isinstance(src_data, str):
          try:
              object_data = open(src_data, 'rb')
          except FileNotFoundError:
              logging.error('Can\'t open src_data')
              object_data = None
          return object_data
      logging.error(f'{type(src_data)} is not supported.')
  \<close>
  \<open>Inr None\<close> is Python's \<open>None\<close>. \<open>open\<close> of a directory raises
  \<open>IsADirectoryError\<close>, which the \<open>except\<close> clause does not catch.
\<close>

fun read_object_data :: "src_data \<Rightarrow> world \<Rightarrow> (exn + object_data option) \<times> world" where
  "read_object_data (SrcBytes b) w = (Inr (Some (RawBytes b)), w)"
| "read_object_data (SrcStr p) w =
     (case fs w p of
        Some c \<Rightarrow> (Inr (Some (FileObj p c)), emit (FileOpened p) w)
      | None \<Rightarrow>
          if p \<in> dirs w then (Inl (IsADirectoryError p), w)
          else (Inr None, logging ERROR (''Can'' @ [CHR 0x27] @ ''t open src_data'') w))"
| "read_object_data (SrcOther t) w =
     (Inr None, logging ERROR (format_type (SrcOther t) @ '' is not supported.'') w)"

text \<open>
  Python's truth value of what \<open>read_object_data\<close> returned: \<open>None\<close> and empty
  bytes are false, a file object is true.
\<close>

fun truthy_object :: "object_data option \<Rightarrow> bool" where
  "truthy_object None = False"
| "truthy_object (Some (RawBytes b)) = (b \<noteq> [])"
| "truthy_object (Some (FileObj p c)) = True"

text \<open>The body the service receives: the bytes, or what the file object reads.\<close>

fun body_of :: "object_data option \<Rightarrow> string" where
  "body_of None = []"
| "body_of (Some (RawBytes b)) = b"
| "body_of (Some (FileObj p c)) = c"

text \<open>\<open>object_data.close()\<close>, which the source calls on a file object only.\<close>

fun close_object :: "object_data option \<Rightarrow> world \<Rightarrow> world" where
  "close_object (Some (FileObj p c)) w = emit (FileClosed p) w"
| "close_object od w = w"

fun is_str :: "src_data \<Rightarrow> bool" where
  "is_str (SrcStr p) = True"
| "is_str s = False"

text \<open>
  \<^verbatim>\<open>
  def upload_to_glacier(access, secret, vault_name, src_data):
      object_data = read_object_data(src_data)
      if not object_data:
          return
      try:
          glacier = boto3.client('glacier', aws_access_key_id=access,
                                 aws_secret_access_key=secret)
          archive = glacier.upload_archive(vaultName=vault_name,
                                           archiveDescription=src_data,
                                           body=object_data)
      except ClientError as err:
          logging.debug(err)
          logging.error(f'{src_data} was not uploaded to {vault_name}')
      if isinstance(src_data, str):
          object_data.close()
      return archive
  \<close>
  The local variable \<open>archive\<close> is bound only when the call in the \<open>try\<close> block
  returns; it is an option here, \<open>None\<close> for unbound, and reading it unbound raises
  \<open>UnboundLocalError\<close>. An exception of the \<open>try\<close> block that is not a
  \<open>ClientError\<close> leaves the function at once: nothing is logged and
  \<open>object_data.close()\<close> is not reached. The function's result is \<open>Inr None\<close>
  when it returns Python's \<open>None\<close> and \<open>Inr (Some a)\<close> when it returns the
  response \<open>a\<close>.
\<close>

definition upload_to_glacier ::
  "remote \<Rightarrow> string \<Rightarrow> string \<Rightarrow> string \<Rightarrow> src_data \<Rightarrow> world
     \<Rightarrow> (exn + pydict option) \<times> world" where
  "upload_to_glacier r access secret vault src w =
     (case read_object_data src w of
        (Inl e, w1) \<Rightarrow> (Inl e, w1)
      | (Inr object_data, w1) \<Rightarrow>
        if \<not> truthy_object object_data then (Inr None, w1)
        else
          (let outcome = glacier_upload_archive r access secret vault src (body_of object_data);
               w2 = emit (GlacierUpload vault src (body_of object_data) outcome) w1
           in case outcome of
                Inl (OtherError e) \<Rightarrow> (Inl (OtherException e), w2)
              | Inl (ClientError err) \<Rightarrow>
                  (let w3 = logging ERROR (format_src src @ '' was not uploaded to '' @ vault)
                              (logging DEBUG err w2);
                       w4 = (if is_str src then close_object object_data w3 else w3)
                   in (Inl (UnboundLocalError ''archive''), w4))
              | Inr a \<Rightarrow>
                  (let w4 = (if is_str src then close_object object_data w2 else w2)
                   in (Inr (Some a), w4))))"

text \<open>
  \<^verbatim>\<open>
  def upload_to_s3(access, secret, bucket, file_name):
      object_name = os.path.basename(file_name)
      try:
          s3_client = boto3.client('s3', aws_access_key_id=access,
                                   aws_secret_access_key=secret)
          s3_client.upload_file(file_name, bucket, object_name)
      except ClientError as err:
          logging.debug(err)
          logging.error(f'{object_name} was not uploaded to {bucket}')
  \<close>
  An exception of the \<open>try\<close> block that is not a \<open>ClientError\<close> leaves the
  function.
\<close>

definition upload_to_s3 ::
  "remote \<Rightarrow> string \<Rightarrow> string \<Rightarrow> string \<Rightarrow> string \<Rightarrow> world \<Rightarrow> (exn + unit) \<times> world" where
  "upload_to_s3 r access secret bucket file_name w =
     (let object_name = basename file_name;
          outcome = s3_upload_file r access secret file_name bucket object_name;
          w1 = emit (S3Upload file_name bucket object_name outcome) w
      in case outcome of
           Inr u \<Rightarrow> (Inr (), w1)
         | Inl (ClientError err) \<Rightarrow>
             (Inr (),
              logging ERROR (object_name @ '' was not uploaded to '' @ bucket)
                (logging DEBUG err w1))
         | Inl (OtherError e) \<Rightarrow> (Inl (OtherException e), w1))"

text \<open>Python's truth value of what \<open>upload_to_glacier\<close> returned.\<close>

fun truthy_archive :: "pydict option \<Rightarrow> bool" where
  "truthy_archive None = False"
| "truthy_archive (Some a) = (a \<noteq> [])"

text \<open>
  \<^verbatim>\<open>
  def upload_list_to_glacier(vault_name, access, secret, file_set, history_file):
      for backup_file in file_set:
          archive = upload_to_glacier(vault_name=vault_name, src_data=backup_file,
                                      access=access, secret=secret)
          if archive:
              save_history(history_file, archive)
              logging.info(f'File {backup_file} added to {vault_name}')
              remove_backup(backup_file)
  \<close>
  An exception of \<open>upload_to_glacier\<close> ends the loop and leaves the function.
\<close>

fun upload_list_to_glacier ::
  "remote \<Rightarrow> string \<Rightarrow> string \<Rightarrow> string \<Rightarrow> string list \<Rightarrow> string \<Rightarrow> world
     \<Rightarrow> (exn + unit) \<times> world" where
  "upload_list_to_glacier r vault access secret [] hist w = (Inr (), w)"
| "upload_list_to_glacier r vault access secret (backup_file # rest) hist w =
     (case upload_to_glacier r access secret vault (SrcStr backup_file) w of
        (Inl e, w1) \<Rightarrow> (Inl e, w1)
      | (Inr archive, w1) \<Rightarrow>
          if truthy_archive archive then
            (let w2 = save_history hist (case archive of Some a \<Rightarrow> a | None \<Rightarrow> []) w1;
                 w3 = logging INFO (''File '' @ backup_file @ '' added to '' @ vault) w2;
                 w4 = remove_backup backup_file w3
             in upload_list_to_glacier r vault access secret rest hist w4)
          else upload_list_to_glacier r vault access secret rest hist w1)"

text \<open>
  \<^verbatim>\<open>
  def upload_list_to_s3(bucket_name, access, secret, file_set):
      for backup_file in file_set:
          upload_to_s3(access, secret, bucket_name, backup_file)
          logging.info(f'File {backup_file} added to {bucket_name}')
          remove_backup(backup_file)
  \<close>
  An exception of \<open>upload_to_s3\<close> ends the loop and leaves the function.
\<close>

fun upload_list_to_s3 ::
  "remote \<Rightarrow> string \<Rightarrow> string \<Rightarrow> string \<Rightarrow> string list \<Rightarrow> world
     \<Rightarrow> (exn + unit) \<times> world" where
  "upload_list_to_s3 r bucket access secret [] w = (Inr (), w)"
| "upload_list_to_s3 r bucket access secret (backup_file # rest) w =
     (case upload_to_s3 r access secret bucket backup_file w of
        (Inl e, w1) \<Rightarrow> (Inl e, w1)
      | (Inr u, w1) \<Rightarrow>
          (let w2 = logging INFO (''File '' @ backup_file @ '' added to '' @ bucket) w1;
               w3 = remove_backup backup_file w2
           in upload_list_to_s3 r bucket access secret rest w3))"

text \<open>
  \<^verbatim>\<open>
  def shutdown(lvl: int = 0):
      logging.info('Stop')
      sys.exit(lvl)
  \<close>
\<close>

definition shutdown :: "nat \<Rightarrow> world \<Rightarrow> (exn + unit) \<times> world" where
  "shutdown lvl w = (Inl (SystemExit lvl), logging INFO ''Stop'' w)"

text \<open>
  \<^verbatim>\<open>
  def main():
      logging.info('Start')
      args = parse_args()
      backups_set = find_backup(args.backup_dir, args.backup_ext)
      if not backups_set:
          logging.warning(f'No backups in {args.backup_dir} found. Exit.')
          shutdown(1)
      if args.mode == 'glacier':
          upload_list_to_glacier(file_set=backups_set, history_file=args.history_file,
                                 access=args.access_key, secret=args.secret_key,
                                 vault_name=args.vault_name)
      else:
          upload_list_to_s3(file_set=backups_set, access=args.access_key,
                            secret=args.secret_key, bucket_name=args.bucket_name)
      shutdown(0)
  \<close>
  The parsed arguments are a parameter. \<open>shutdown\<close> raises \<open>SystemExit\<close>, so
  nothing after \<open>shutdown(1)\<close> runs.
\<close>

definition main :: "remote \<Rightarrow> args \<Rightarrow> world \<Rightarrow> (exn + unit) \<times> world" where
  "main r a w =
     (let w1 = logging INFO ''Start'' w;
          (backups_set, w2) = find_backup (backup_dir a) (backup_ext a) w1
      in if backups_set = [] then
           shutdown 1
             (logging WARNING (''No backups in '' @ backup_dir a @ '' found. Exit.'') w2)
         else if mode a = ''glacier'' then
           (case upload_list_to_glacier r (vault_name a) (access_key a) (secret_key a)
                   backups_set (history_file a) w2 of
              (Inl e, w3) \<Rightarrow> (Inl e, w3)
            | (Inr u, w3) \<Rightarrow> shutdown 0 w3)
         else
           (case upload_list_to_s3 r (bucket_name a) (access_key a) (secret_key a)
                   backups_set w2 of
              (Inl e, w3) \<Rightarrow> (Inl e, w3)
            | (Inr u, w3) \<Rightarrow> shutdown 0 w3))"

text \<open>
  The exit status of the process: the argument of \<open>sys.exit\<close>, 1 for any other
  exception that reaches the top level, 0 when \<open>main\<close> returns.
\<close>

fun exit_status :: "exn + unit \<Rightarrow> nat" where
  "exit_status (Inl (SystemExit n)) = n"
| "exit_status (Inl e) = 1"
| "exit_status (Inr u) = 0"

subsection \<open>Reading a run off the trace\<close>

text \<open>The events a run from world \<open>w\<close> to world \<open>w'\<close> added to the trace.\<close>

definition run_events :: "world \<Rightarrow> world \<Rightarrow> event list" where
  "run_events w w' = drop (length (trace w)) (trace w')"

fun is_log :: "event \<Rightarrow> bool" where
  "is_log (Log lvl msg) = True"
| "is_log e = False"

text \<open>The events that are not log records: what the run did to the outside.\<close>

definition actions :: "event list \<Rightarrow> event list" where
  "actions evs = filter (\<lambda>e. \<not> is_log e) evs"

text \<open>What a list of events wrote to files, removed, and uploaded with success.\<close>

fun history_write :: "event \<Rightarrow> (string \<times> string) list" where
  "history_write (HistoryAppended p s) = [(p, s)]"
| "history_write e = []"

definition history_writes :: "event list \<Rightarrow> (string \<times> string) list" where
  "history_writes evs = concat (map history_write evs)"

fun removal :: "event \<Rightarrow> string list" where
  "removal (FileRemoved p) = [p]"
| "removal e = []"

definition removals :: "event list \<Rightarrow> string list" where
  "removals evs = concat (map removal evs)"

text \<open>
  The archive-vault uploads that reported success: the remote call returned a
  response that Python takes for true (a dictionary that is not empty). Each with
  the source it uploaded and the response.
\<close>

fun glacier_success :: "event \<Rightarrow> (src_data \<times> pydict) list" where
  "glacier_success (GlacierUpload vault src body (Inr arch)) =
     (if arch = [] then [] else [(src, arch)])"
| "glacier_success e = []"

definition glacier_successes :: "event list \<Rightarrow> (src_data \<times> pydict) list" where
  "glacier_successes evs = concat (map glacier_success evs)"

text \<open>
  The files whose upload reported success, in either mode: an archive-vault
  upload of the file that returned a response that is not empty, a bucket upload
  of the file that returned.
\<close>

fun upload_success :: "event \<Rightarrow> string list" where
  "upload_success (GlacierUpload vault (SrcStr p) body (Inr arch)) =
     (if arch = [] then [] else [p])"
| "upload_success (S3Upload file_name bucket object_name (Inr u)) = [file_name]"
| "upload_success e = []"

definition upload_successes :: "event list \<Rightarrow> string list" where
  "upload_successes evs = concat (map upload_success evs)"

text \<open>
  What a run of the archive-vault loop did, read off the events \<open>evs\<close> it added:
  the writes to files are the encoded identifiers of the successful uploads, to
  the history file, in order; the removed files are the successfully uploaded
  ones, in order; a path other than the history file has no file afterwards when
  it was removed and is as before otherwise; the history file, when it is not one
  of the uploaded files, has grown by the writes.
\<close>

definition glacier_run_ok ::
  "string \<Rightarrow> string list \<Rightarrow> world \<Rightarrow> world \<Rightarrow> event list \<Rightarrow> bool" where
  "glacier_run_ok hist files w w' evs =
     (trace w' = trace w @ evs
      \<and> history_writes evs =
          map (\<lambda>(src, arch). (hist, json_dumps (dict_get arch ''archiveId'')))
            (glacier_successes evs)
      \<and> map SrcStr (removals evs) = map fst (glacier_successes evs)
      \<and> upload_successes evs = removals evs
      \<and> (\<forall>p. p \<noteq> hist \<longrightarrow> fs w' p = (if p \<in> set (removals evs) then None else fs w p))
      \<and> (hist \<notin> set files \<longrightarrow>
           file_content w' hist = file_content w hist @ concat (map snd (history_writes evs))))"

subsection \<open>Example inputs\<close>

definition example_world :: world where
  "example_world =
     \<lparr>fs = [''/data/backup/a.back.7z'' \<mapsto> ''AAA'', ''/data/backup/b.back.7z'' \<mapsto> ''BB'',
             ''/data/backup/c.txt'' \<mapsto> ''C''],
      dirs = {''/data/backup''},
      listdir = (\<lambda>d. if d = ''/data/backup'' then [''a.back.7z'', ''b.back.7z'', ''c.txt'']
                      else []),
      trace = []\<rparr>"

text \<open>
  A remote that refuses every call: \<open>upload_archive\<close> raises \<open>ClientError\<close>, and
  \<open>upload_file\<close> reports the failed transfer as \<open>S3UploadFailedError\<close>.
\<close>

definition failing_remote :: remote where
  "failing_remote =
     \<lparr>glacier_upload_archive =
        (\<lambda>access secret vault description body. Inl (ClientError ''AccessDenied'')),
      s3_upload_file =
        (\<lambda>access secret file_name bucket object_name. Inl (OtherError ''S3UploadFailedError''))\<rparr>"

text \<open>A remote that cannot be reached: every call fails with a connection error.\<close>

definition unreachable_remote :: remote where
  "unreachable_remote =
     \<lparr>glacier_upload_archive =
        (\<lambda>access secret vault description body. Inl (OtherError ''EndpointConnectionError'')),
      s3_upload_file =
        (\<lambda>access secret file_name bucket object_name.
           Inl (OtherError ''EndpointConnectionError''))\<rparr>"



text \<open>A remote whose every call succeeds.\<close>

definition working_remote :: remote where
  "working_remote =
     \<lparr>glacier_upload_archive =
        (\<lambda>access secret vault description body.
           Inr [(''location'', PyStr ''/vaults/v/archives/XYZ''), (''archiveId'', PyStr ''XYZ'')]),
      s3_upload_file = (\<lambda>access secret file_name bucket object_name. Inr ())\<rparr>"


text \<open>The defaults of \<open>parse_args\<close>, with the mode given.\<close>

definition default_args :: "string \<Rightarrow> args" where
  "default_args m =
     \<lparr>access_key = ''Z123456'', secret_key = ''A123456'',
      vault_name = ''some Glacier vault'', bucket_name = ''some S3 bucket'',
      backup_dir = ''/data/backup'', history_file = ''history.json'',
      backup_ext = ''.back.7z'', mode = m\<rparr>"

section \<open>Verification\<close>

subsection \<open>Basic facts\<close>

lemma emit_simps:
  "fs (emit e w) = fs w" "dirs (emit e w) = dirs w" "listdir (emit e w) = listdir w"
  "trace (emit e w) = trace w @ [e]"
  by (simp_all add: emit_def)

lemma logging_simps:
  "fs (logging l m w) = fs w" "dirs (logging l m w) = dirs w"
  "listdir (logging l m w) = listdir w"
  "trace (logging l m w) = trace w @ [Log l m]"
  by (simp_all add: logging_def emit_def)

lemma run_events_append: "trace w' = trace w @ evs \<Longrightarrow> run_events w w' = evs"
  by (simp add: run_events_def)

lemma rfind_neg_iff: "(rfind c xs < 0) = (c \<notin> set xs)"
  by (induction xs) (auto simp: Let_def)

lemma rfind_drop: "c \<notin> set (drop (nat (rfind c xs + 1)) xs)"
proof (induction xs)
  case Nil
  show ?case by simp
next
  case (Cons x xs)
  show ?case
  proof (cases "0 \<le> rfind c xs")
    case True
    then have "nat (rfind c xs + 1 + 1) = Suc (nat (rfind c xs + 1))" by simp
    with True Cons show ?thesis by (simp add: Let_def)
  next
    case False
    then have "c \<notin> set xs" using rfind_neg_iff [of c xs] by simp
    with False show ?thesis by (simp add: Let_def)
  qed
qed

lemma rfind_take:
  "take (nat (rfind c xs + 1)) xs = [] \<or> suffix [c] (take (nat (rfind c xs + 1)) xs)"
proof (induction xs)
  case Nil
  show ?case by simp
next
  case (Cons x xs)
  show ?case
  proof (cases "0 \<le> rfind c xs")
    case True
    then have n: "nat (rfind c xs + 1 + 1) = Suc (nat (rfind c xs + 1))" by simp
    from True have "take (nat (rfind c xs + 1)) xs \<noteq> []"
      using rfind_neg_iff [of c xs] by (cases xs) auto
    with Cons have "suffix [c] (take (nat (rfind c xs + 1)) xs)" by simp
    then have "suffix [c] (x # take (nat (rfind c xs + 1)) xs)" by (rule suffix_ConsI)
    with True n show ?thesis by (simp add: Let_def)
  next
    case False
    then show ?thesis by (simp add: Let_def)
  qed
qed

subsection \<open>One bucket upload\<close>

lemma upload_to_s3_trace:
  "trace (snd (upload_to_s3 r access secret bucket file_name w)) =
     trace w @ S3Upload file_name bucket (basename file_name)
                 (s3_upload_file r access secret file_name bucket (basename file_name))
       # (case s3_upload_file r access secret file_name bucket (basename file_name) of
            Inr u \<Rightarrow> []
          | Inl (ClientError err) \<Rightarrow>
              [Log DEBUG err,
               Log ERROR (basename file_name @ '' was not uploaded to '' @ bucket)]
          | Inl (OtherError e) \<Rightarrow> [])"
  by (simp add: upload_to_s3_def Let_def emit_simps logging_simps
      split: sum.splits remote_error.splits)


lemma upload_to_s3_result:
  "fst (upload_to_s3 r access secret bucket file_name w) =
     (case s3_upload_file r access secret file_name bucket (basename file_name) of
        Inl (OtherError e) \<Rightarrow> Inl (OtherException e)
      | _ \<Rightarrow> Inr ())"
  by (simp add: upload_to_s3_def Let_def split: sum.splits remote_error.splits)

text \<open>
  C9. In bucket mode the one remote call that \<open>upload_to_s3\<close> makes for a local
  file path names the object by the path's base name: the part of the path after
  its last \<open>/\<close> (the whole path when it has none). The base name has no \<open>/\<close>, and
  what precedes it in the path is empty or ends with \<open>/\<close>.
\<close>

theorem upload_to_s3_object_name_is_basename:
  "actions (run_events w (snd (upload_to_s3 r access secret bucket file_name w))) =
     [S3Upload file_name bucket (basename file_name)
        (s3_upload_file r access secret file_name bucket (basename file_name))]
   \<and> CHR ''/'' \<notin> set (basename file_name)
   \<and> (\<exists>d. file_name = d @ basename file_name \<and> (d = [] \<or> suffix ''/'' d))"
proof -
  let ?n = "nat (rfind CHR ''/'' file_name + 1)"
  have "actions (run_events w (snd (upload_to_s3 r access secret bucket file_name w))) =
     [S3Upload file_name bucket (basename file_name)
        (s3_upload_file r access secret file_name bucket (basename file_name))]"
    by (simp add: run_events_append [OF upload_to_s3_trace] actions_def
        split: sum.splits remote_error.splits)
  moreover have "CHR ''/'' \<notin> set (basename file_name)"
    unfolding basename_def by (rule rfind_drop)
  moreover have "file_name = take ?n file_name @ basename file_name"
    by (simp add: basename_def)
  moreover have "take ?n file_name = [] \<or> suffix ''/'' (take ?n file_name)"
    by (rule rfind_take)
  ultimately show ?thesis by blast
qed

subsection \<open>The Backup Locator\<close>

lemma find_backup_loop_set:
  "set (fst (find_backup_loop d e files backups w)) =
     set backups \<union> path_join d ` {file \<in> set files. e = [] \<or> suffix e file}"
  by (induction files arbitrary: backups w) (auto simp: set_add_def Let_def)

lemma find_backup_loop_distinct:
  "distinct backups \<Longrightarrow> distinct (fst (find_backup_loop d e files backups w))"
  by (induction files arbitrary: backups w) (auto simp: set_add_def Let_def)

lemma find_backup_loop_frame:
  "fs (snd (find_backup_loop d e files backups w)) = fs w \<and>
   dirs (snd (find_backup_loop d e files backups w)) = dirs w \<and>
   listdir (snd (find_backup_loop d e files backups w)) = listdir w"
  by (induction files arbitrary: backups w) (auto simp: Let_def logging_simps)

lemma find_backup_loop_world_indep:
  "fst (find_backup_loop d e files backups w) = fst (find_backup_loop d e files backups w')"
  by (induction files arbitrary: backups w w') (auto simp: Let_def)

lemma find_backup_loop_nonempty:
  "backups \<noteq> [] \<Longrightarrow> fst (find_backup_loop d e files backups w) \<noteq> []"
  by (induction files arbitrary: backups w) (auto simp: set_add_def Let_def)

lemma find_backup_loop_empty:
  "fst (find_backup_loop d e files [] w) = [] \<Longrightarrow> snd (find_backup_loop d e files [] w) = w"
proof (induction files arbitrary: w)
  case Nil
  show ?case by simp
next
  case (Cons x rest)
  show ?case
  proof (cases "e = [] \<or> suffix e x")
    case True
    have "fst (find_backup_loop d e (x # rest) [] w) \<noteq> []"
      using True by (simp add: Let_def set_add_def find_backup_loop_nonempty)
    with Cons.prems show ?thesis by simp
  next
    case False
    with Cons show ?thesis by simp
  qed
qed

lemma find_backup_loop_log_only:
  "\<exists>evs. trace (snd (find_backup_loop d e files backups w)) = trace w @ evs \<and> actions evs = []"
proof (induction files arbitrary: backups w)
  case Nil
  show ?case by (simp add: actions_def)
next
  case (Cons x rest)
  show ?case
  proof (cases "e = [] \<or> suffix e x")
    case True
    let ?w1 = "logging DEBUG (''Backup file '' @ path_join d x @ '' added.'') w"
    obtain evs where
      "trace (snd (find_backup_loop d e rest (set_add (path_join d x) backups) ?w1)) =
         trace ?w1 @ evs" and "actions evs = []"
      using Cons.IH by blast
    then have
      "trace (snd (find_backup_loop d e (x # rest) backups w)) =
         trace w @ (Log DEBUG (''Backup file '' @ path_join d x @ '' added.'') # evs)
       \<and> actions (Log DEBUG (''Backup file '' @ path_join d x @ '' added.'') # evs) = []"
      using True by (simp add: Let_def logging_simps actions_def)
    then show ?thesis by blast
  next
    case False
    then show ?thesis using Cons.IH [of backups w] by simp
  qed
qed

text \<open>
  C4. For every directory and suffix filter, \<open>find_backup\<close> returns exactly the
  paths \<open>os.path.join(directory, name)\<close> of the names \<open>os.listdir\<close> gives for the
  directory (its immediate children) that end with the filter, all of them when
  the filter is empty. The result has no duplicates, and the file system is not
  touched: no child is opened or listed in turn.
\<close>

theorem find_backup_exact:
  "set (fst (find_backup d e w)) =
     path_join d ` {file \<in> set (listdir w d). e = [] \<or> suffix e file}
   \<and> distinct (fst (find_backup d e w))
   \<and> fs (snd (find_backup d e w)) = fs w
   \<and> actions (run_events w (snd (find_backup d e w))) = []"
proof -
  obtain evs where "trace (snd (find_backup d e w)) = trace w @ evs" and "actions evs = []"
    unfolding find_backup_def using find_backup_loop_log_only by blast
  then have "actions (run_events w (snd (find_backup d e w))) = []"
    by (simp add: run_events_append)
  then show ?thesis
    by (simp add: find_backup_def find_backup_loop_set find_backup_loop_distinct
        find_backup_loop_frame)
qed

subsection \<open>The orchestrator when nothing is found\<close>

text \<open>
  C5. When the Locator finds nothing, \<open>main\<close> logs a warning and exits with
  status 1; the whole trace of the run is the three log records, so no upload is
  attempted (and no file is touched).
\<close>

theorem main_nothing_found_exits_1:
  assumes "fst (find_backup (backup_dir a) (backup_ext a) w) = []"
  shows "main r a w =
     (Inl (SystemExit 1),
      w\<lparr>trace := trace w @
         [Log INFO ''Start'',
          Log WARNING (''No backups in '' @ backup_dir a @ '' found. Exit.''),
          Log INFO ''Stop'']\<rparr>)
    \<and> exit_status (fst (main r a w)) = 1"
proof -
  let ?w1 = "logging INFO ''Start'' w"
  have e: "fst (find_backup (backup_dir a) (backup_ext a) ?w1) = []"
    using assms find_backup_loop_world_indep [of "backup_dir a" "backup_ext a" _ "[]" ?w1 w]
    by (simp add: find_backup_def logging_simps)
  then have s: "snd (find_backup (backup_dir a) (backup_ext a) ?w1) = ?w1"
    by (simp add: find_backup_def find_backup_loop_empty)
  from e s have "find_backup (backup_dir a) (backup_ext a) ?w1 = ([], ?w1)"
    by (metis prod.collapse)
  then show ?thesis
    by (simp add: main_def Let_def shutdown_def logging_def emit_def)
qed

theorem main_nothing_found_exits_1_witness:
  "fst (find_backup ''/data/backup'' ''.zip'' example_world) = []
   \<and> fst (main working_remote ((default_args ''glacier'')\<lparr>backup_ext := ''.zip''\<rparr>)
          example_world) = Inl (SystemExit 1)
   \<and> actions (trace (snd (main working_remote
        ((default_args ''glacier'')\<lparr>backup_ext := ''.zip''\<rparr>) example_world))) = []"
proof -
  have h: "fst (find_backup (backup_dir ((default_args ''glacier'')\<lparr>backup_ext := ''.zip''\<rparr>))
             (backup_ext ((default_args ''glacier'')\<lparr>backup_ext := ''.zip''\<rparr>))
             example_world) = []"
    by code_simp
  show ?thesis
    using h main_nothing_found_exits_1 [OF h, of working_remote]
    by (simp add: default_args_def actions_def example_world_def)
qed

subsection \<open>The History Recorder\<close>



subsection \<open>One archive-vault upload\<close>

lemma upload_to_glacier_missing:
  assumes "fs w p = None" and "p \<notin> dirs w"
  shows "upload_to_glacier r access secret vault (SrcStr p) w =
           (Inr None, logging ERROR (''Can'' @ [CHR 0x27] @ ''t open src_data'') w)"
  using assms by (simp add: upload_to_glacier_def)

lemma upload_to_glacier_directory:
  assumes "fs w p = None" and "p \<in> dirs w"
  shows "upload_to_glacier r access secret vault (SrcStr p) w = (Inl (IsADirectoryError p), w)"
  using assms by (simp add: upload_to_glacier_def)

lemma upload_to_glacier_ok:
  assumes "fs w p = Some c"
    and "glacier_upload_archive r access secret vault (SrcStr p) c = Inr arch"
  shows "upload_to_glacier r access secret vault (SrcStr p) w =
           (Inr (Some arch),
            w\<lparr>trace := trace w @
               [FileOpened p, GlacierUpload vault (SrcStr p) c (Inr arch), FileClosed p]\<rparr>)"
  using assms by (simp add: upload_to_glacier_def Let_def emit_def)

lemma upload_to_glacier_client_error:
  assumes "fs w p = Some c"
    and "glacier_upload_archive r access secret vault (SrcStr p) c = Inl (ClientError err)"
  shows "upload_to_glacier r access secret vault (SrcStr p) w =
           (Inl (UnboundLocalError ''archive''),
            w\<lparr>trace := trace w @
               [FileOpened p, GlacierUpload vault (SrcStr p) c (Inl (ClientError err)),
                Log DEBUG err,
                Log ERROR (p @ '' was not uploaded to '' @ vault), FileClosed p]\<rparr>)"
  using assms by (simp add: upload_to_glacier_def Let_def emit_def logging_def)

lemma upload_to_glacier_other_error:
  assumes "fs w p = Some c"
    and "glacier_upload_archive r access secret vault (SrcStr p) c = Inl (OtherError e)"
  shows "upload_to_glacier r access secret vault (SrcStr p) w =
           (Inl (OtherException e),
            w\<lparr>trace := trace w @
               [FileOpened p, GlacierUpload vault (SrcStr p) c (Inl (OtherError e))]\<rparr>)"
  using assms by (simp add: upload_to_glacier_def Let_def emit_def)

lemma upload_to_glacier_bytes_trace:
  "trace (snd (upload_to_glacier r access secret vault (SrcBytes b) w)) =
     trace w @
       (if b = [] then []
        else GlacierUpload vault (SrcBytes b) b
               (glacier_upload_archive r access secret vault (SrcBytes b) b)
             # (case glacier_upload_archive r access secret vault (SrcBytes b) b of
                  Inr arch \<Rightarrow> []
                | Inl (ClientError err) \<Rightarrow>
                    [Log DEBUG err,
                     Log ERROR (bytes_repr b @ '' was not uploaded to '' @ vault)]
                | Inl (OtherError e) \<Rightarrow> []))"
  by (simp add: upload_to_glacier_def Let_def emit_def logging_def
      split: sum.splits remote_error.splits)

text \<open>
  Where the file is closed: when \<open>upload_to_glacier\<close> is given a path that it
  opens and the remote call returns or raises \<open>ClientError\<close>, what it does to the
  outside is, in this order: open the file, make the remote call with the file's
  contents, close the file. When it is given bytes, it opens and closes nothing.
\<close>

lemma upload_to_glacier_closes_when_caught:
  assumes "fs w p = Some c"
    and "\<And>e. glacier_upload_archive r access secret vault (SrcStr p) c \<noteq> Inl (OtherError e)"
  shows "actions (run_events w (snd (upload_to_glacier r access secret vault (SrcStr p) w))) =
        [FileOpened p,
         GlacierUpload vault (SrcStr p) c
           (glacier_upload_archive r access secret vault (SrcStr p) c),
         FileClosed p]"
proof (cases "glacier_upload_archive r access secret vault (SrcStr p) c")
  case (Inr arch)
  show ?thesis
    by (simp add: upload_to_glacier_ok [OF assms(1) Inr] Inr run_events_def actions_def)
next
  case (Inl err)
  show ?thesis
  proof (cases err)
    case (ClientError m)
    with Inl have
      out: "glacier_upload_archive r access secret vault (SrcStr p) c = Inl (ClientError m)"
      by simp
    show ?thesis
      by (simp add: upload_to_glacier_client_error [OF assms(1) out] out run_events_def
          actions_def)
  next
    case (OtherError e)
    with Inl assms(2) show ?thesis by simp
  qed
qed

lemma upload_to_glacier_bytes_opens_nothing:
  "actions (run_events w (snd (upload_to_glacier r access secret vault (SrcBytes b) w))) =
        (if b = [] then []
         else [GlacierUpload vault (SrcBytes b) b
                 (glacier_upload_archive r access secret vault (SrcBytes b) b)])"
  by (simp add: run_events_append [OF upload_to_glacier_bytes_trace] actions_def
      split: sum.splits remote_error.splits)

text \<open>
  C8, at a failing input. The file exists and is opened, and the remote cannot
  be reached: the call in the \<open>try\<close> block raises an exception that is not a
  \<open>ClientError\<close>. The exception leaves \<open>upload_to_glacier\<close> from inside the
  \<open>try\<close> block; \<open>object_data.close()\<close> stands after the block, outside any
  \<open>finally\<close>, and is not reached. What the call did to the outside is to open the
  file and to make the remote call: the file is never closed.
\<close>

theorem upload_to_glacier_leaves_file_open:
  "upload_to_glacier unreachable_remote ''Z123456'' ''A123456'' ''some Glacier vault''
      (SrcStr ''/data/backup/a.back.7z'') example_world =
     (Inl (OtherException ''EndpointConnectionError''),
      example_world\<lparr>trace :=
        [FileOpened ''/data/backup/a.back.7z'',
         GlacierUpload ''some Glacier vault'' (SrcStr ''/data/backup/a.back.7z'') ''AAA''
           (Inl (OtherError ''EndpointConnectionError''))]\<rparr>)
   \<and> FileClosed ''/data/backup/a.back.7z'' \<notin>
       set (trace (snd (upload_to_glacier unreachable_remote ''Z123456'' ''A123456''
                          ''some Glacier vault'' (SrcStr ''/data/backup/a.back.7z'')
                          example_world)))"
proof -
  have f: "fs example_world ''/data/backup/a.back.7z'' = Some ''AAA''"
    by (simp add: example_world_def)
  have e: "glacier_upload_archive unreachable_remote ''Z123456'' ''A123456''
             ''some Glacier vault'' (SrcStr ''/data/backup/a.back.7z'') ''AAA'' =
           Inl (OtherError ''EndpointConnectionError'')"
    by (simp add: unreachable_remote_def)
  have t: "trace example_world = []"
    by (simp add: example_world_def)
  show ?thesis
    by (simp add: upload_to_glacier_other_error [OF f e] t)
qed

text \<open>
  C2, at a failing input. The file exists and the remote call raises
  \<open>ClientError\<close>. The error is logged and the file is closed, but then
  \<open>return archive\<close> reads a variable that was never bound: the call does not
  return nothing, it raises \<open>UnboundLocalError\<close>. The exception leaves
  \<open>upload_list_to_glacier\<close> as well, so the second file of the list is never
  attempted. Both files stay in place.
\<close>

theorem upload_to_glacier_client_error_escapes:
  "upload_to_glacier failing_remote ''Z123456'' ''A123456'' ''some Glacier vault''
      (SrcStr ''/data/backup/a.back.7z'') example_world =
     (Inl (UnboundLocalError ''archive''),
      example_world\<lparr>trace :=
        [FileOpened ''/data/backup/a.back.7z'',
         GlacierUpload ''some Glacier vault'' (SrcStr ''/data/backup/a.back.7z'') ''AAA''
           (Inl (ClientError ''AccessDenied'')),
         Log DEBUG ''AccessDenied'',
         Log ERROR ''/data/backup/a.back.7z was not uploaded to some Glacier vault'',
         FileClosed ''/data/backup/a.back.7z'']\<rparr>)
   \<and> upload_list_to_glacier failing_remote ''some Glacier vault'' ''Z123456'' ''A123456''
        [''/data/backup/a.back.7z'', ''/data/backup/b.back.7z''] ''history.json''
        example_world =
       (Inl (UnboundLocalError ''archive''),
        snd (upload_to_glacier failing_remote ''Z123456'' ''A123456'' ''some Glacier vault''
               (SrcStr ''/data/backup/a.back.7z'') example_world))"
proof -
  have f: "fs example_world ''/data/backup/a.back.7z'' = Some ''AAA''"
    by (simp add: example_world_def)
  have e: "glacier_upload_archive failing_remote ''Z123456'' ''A123456'' ''some Glacier vault''
             (SrcStr ''/data/backup/a.back.7z'') ''AAA'' = Inl (ClientError ''AccessDenied'')"
    by (simp add: failing_remote_def)
  have t: "trace example_world = []"
    by (simp add: example_world_def)
  show ?thesis
    by (simp add: upload_to_glacier_client_error [OF f e] t)
qed

text \<open>
  C3, at a failing input. In archive-vault mode, with two matching files and a
  remote that raises \<open>ClientError\<close>, \<open>main\<close> is left by the
  \<open>UnboundLocalError\<close> of the first upload: the exit status is 1, not 0, the
  second file is never attempted and \<open>Stop\<close> is never logged.
\<close>

theorem main_glacier_client_error_exits_1:
  "fst (main failing_remote (default_args ''glacier'') example_world) =
     Inl (UnboundLocalError ''archive'')
   \<and> exit_status (fst (main failing_remote (default_args ''glacier'') example_world)) = 1
   \<and> trace (snd (main failing_remote (default_args ''glacier'') example_world)) =
       [Log INFO ''Start'',
        Log DEBUG ''Backup file /data/backup/a.back.7z added.'',
        Log DEBUG ''Backup file /data/backup/b.back.7z added.'',
        FileOpened ''/data/backup/a.back.7z'',
        GlacierUpload ''some Glacier vault'' (SrcStr ''/data/backup/a.back.7z'') ''AAA''
          (Inl (ClientError ''AccessDenied'')),
        Log DEBUG ''AccessDenied'',
        Log ERROR ''/data/backup/a.back.7z was not uploaded to some Glacier vault'',
        FileClosed ''/data/backup/a.back.7z'']"
  by (simp add: main_def default_args_def example_world_def failing_remote_def find_backup_def
      path_join_def set_add_def suffix_to_prefix logging_def emit_def Let_def
      upload_to_glacier_def)

subsection \<open>Removing a file\<close>




lemma history_writes_simps:
  "history_writes [] = []"
  "history_writes (e # evs) = history_write e @ history_writes evs"
  "history_writes (xs @ ys) = history_writes xs @ history_writes ys"
  by (simp_all add: history_writes_def)

lemma removals_simps:
  "removals [] = []"
  "removals (e # evs) = removal e @ removals evs"
  "removals (xs @ ys) = removals xs @ removals ys"
  by (simp_all add: removals_def)

lemma glacier_successes_simps:
  "glacier_successes [] = []"
  "glacier_successes (e # evs) = glacier_success e @ glacier_successes evs"
  "glacier_successes (xs @ ys) = glacier_successes xs @ glacier_successes ys"
  by (simp_all add: glacier_successes_def)

lemma upload_successes_simps:
  "upload_successes [] = []"
  "upload_successes (e # evs) = upload_success e @ upload_successes evs"
  "upload_successes (xs @ ys) = upload_successes xs @ upload_successes ys"
  by (simp_all add: upload_successes_def)

subsection \<open>The bucket loop\<close>


lemma upload_list_to_s3_caught:
  assumes "\<And>e. s3_upload_file r access secret x bucket (basename x) \<noteq> Inl (OtherError e)"
  shows "upload_list_to_s3 r bucket access secret (x # rest) w =
           upload_list_to_s3 r bucket access secret rest
             (remove_backup x
                (logging INFO (''File '' @ x @ '' added to '' @ bucket)
                   (snd (upload_to_s3 r access secret bucket x w))))"
proof -
  have "fst (upload_to_s3 r access secret bucket x w) = Inr ()"
    using assms by (simp add: upload_to_s3_result split: sum.splits remote_error.splits)
  then show ?thesis
    by (cases "upload_to_s3 r access secret bucket x w") (simp add: Let_def)
qed

lemma upload_list_to_s3_returns:
  assumes "\<And>f e. f \<in> set files \<Longrightarrow>
             s3_upload_file r access secret f bucket (basename f) \<noteq> Inl (OtherError e)"
  shows "fst (upload_list_to_s3 r bucket access secret files w) = Inr ()"
  using assms
proof (induction files arbitrary: w)
  case Nil
  show ?case by simp
next
  case (Cons x rest)
  have c: "\<And>e. s3_upload_file r access secret x bucket (basename x) \<noteq> Inl (OtherError e)"
    using Cons.prems by simp
  show ?case
    unfolding upload_list_to_s3_caught [OF c] using Cons.prems by (intro Cons.IH) simp
qed






subsection \<open>The archive-vault loop\<close>

lemma upload_list_to_glacier_missing:
  assumes "fs w x = None" and "x \<notin> dirs w"
  shows "upload_list_to_glacier r vault access secret (x # rest) hist w =
           upload_list_to_glacier r vault access secret rest hist
             (w\<lparr>trace := trace w @ [Log ERROR (''Can'' @ [CHR 0x27] @ ''t open src_data'')]\<rparr>)"
  by (simp add: upload_to_glacier_missing [OF assms] logging_def emit_def)

lemma upload_list_to_glacier_directory:
  assumes "fs w x = None" and "x \<in> dirs w"
  shows "upload_list_to_glacier r vault access secret (x # rest) hist w =
           (Inl (IsADirectoryError x), w)"
  by (simp add: upload_to_glacier_directory [OF assms])

lemma upload_list_to_glacier_client_error:
  assumes "fs w x = Some c"
    and "glacier_upload_archive r access secret vault (SrcStr x) c = Inl (ClientError err)"
  shows "upload_list_to_glacier r vault access secret (x # rest) hist w =
           (Inl (UnboundLocalError ''archive''),
            w\<lparr>trace := trace w @
               [FileOpened x, GlacierUpload vault (SrcStr x) c (Inl (ClientError err)),
                Log DEBUG err,
                Log ERROR (x @ '' was not uploaded to '' @ vault), FileClosed x]\<rparr>)"
  by (simp add: upload_to_glacier_client_error [OF assms])

lemma upload_list_to_glacier_other_error:
  assumes "fs w x = Some c"
    and "glacier_upload_archive r access secret vault (SrcStr x) c = Inl (OtherError e)"
  shows "upload_list_to_glacier r vault access secret (x # rest) hist w =
           (Inl (OtherException e),
            w\<lparr>trace := trace w @
               [FileOpened x, GlacierUpload vault (SrcStr x) c (Inl (OtherError e))]\<rparr>)"
  by (simp add: upload_to_glacier_other_error [OF assms])

lemma upload_list_to_glacier_empty_response:
  assumes "fs w x = Some c"
    and "glacier_upload_archive r access secret vault (SrcStr x) c = Inr []"
  shows "upload_list_to_glacier r vault access secret (x # rest) hist w =
           upload_list_to_glacier r vault access secret rest hist
             (w\<lparr>trace := trace w @
                [FileOpened x, GlacierUpload vault (SrcStr x) c (Inr []), FileClosed x]\<rparr>)"
  by (simp add: upload_to_glacier_ok [OF assms])

lemma upload_list_to_glacier_success:
  assumes "fs w x = Some c"
    and "glacier_upload_archive r access secret vault (SrcStr x) c = Inr arch"
    and "arch \<noteq> []"
  shows "upload_list_to_glacier r vault access secret (x # rest) hist w =
           upload_list_to_glacier r vault access secret rest hist
             (w\<lparr>fs := ((fs w)(hist \<mapsto> file_content w hist @
                                        json_dumps (dict_get arch ''archiveId'')))(x := None),
                trace := trace w @
                [FileOpened x, GlacierUpload vault (SrcStr x) c (Inr arch), FileClosed x,
                 HistoryAppended hist (json_dumps (dict_get arch ''archiveId'')),
                 Log INFO (''File '' @ x @ '' added to '' @ vault),
                 Log DEBUG (''Trying to remove file '' @ x),
                 FileRemoved x,
                 Log DEBUG (''File '' @ x @ '' removed'')]\<rparr>)"
  using assms(1,3)
  by (simp add: upload_to_glacier_ok [OF assms(1,2)] Let_def save_history_def append_file_def
      file_content_def remove_backup_def isfile_def os_remove_def logging_def emit_def)

lemma glacier_run_ok_step:
  assumes next_run: "glacier_run_ok hist rest w1 w' evs"
    and tr: "trace w1 = trace w @ step"
    and hw: "history_writes step =
          map (\<lambda>(src, arch). (hist, json_dumps (dict_get arch ''archiveId'')))
            (glacier_successes step)"
    and rm: "map SrcStr (removals step) = map fst (glacier_successes step)"
    and us: "upload_successes step = removals step"
    and fsp: "\<And>p. p \<noteq> hist \<Longrightarrow> fs w1 p = (if p \<in> set (removals step) then None else fs w p)"
    and hc: "hist \<noteq> x \<Longrightarrow>
          file_content w1 hist = file_content w hist @ concat (map snd (history_writes step))"
  shows "glacier_run_ok hist (x # rest) w w' (step @ evs)"
proof -
  from next_run have
    t: "trace w' = trace w1 @ evs" and
    h: "history_writes evs =
          map (\<lambda>(src, arch). (hist, json_dumps (dict_get arch ''archiveId'')))
            (glacier_successes evs)" and
    m: "map SrcStr (removals evs) = map fst (glacier_successes evs)" and
    u: "upload_successes evs = removals evs" and
    f: "\<And>p. p \<noteq> hist \<Longrightarrow> fs w' p = (if p \<in> set (removals evs) then None else fs w1 p)" and
    c: "hist \<notin> set rest \<Longrightarrow>
          file_content w' hist = file_content w1 hist @ concat (map snd (history_writes evs))"
    by (simp_all add: glacier_run_ok_def)
  have 1: "trace w' = trace w @ (step @ evs)"
    using t tr by simp
  have 2: "history_writes (step @ evs) =
          map (\<lambda>(src, arch). (hist, json_dumps (dict_get arch ''archiveId'')))
            (glacier_successes (step @ evs))"
    using h hw by (simp add: history_writes_simps glacier_successes_simps)
  have 3: "map SrcStr (removals (step @ evs)) = map fst (glacier_successes (step @ evs))"
    using m rm by (simp add: removals_simps glacier_successes_simps)
  have 6: "upload_successes (step @ evs) = removals (step @ evs)"
    using u us by (simp add: removals_simps upload_successes_simps)
  have 4: "fs w' p = (if p \<in> set (removals (step @ evs)) then None else fs w p)"
    if "p \<noteq> hist" for p
    using f [OF that] fsp [OF that] by (simp add: removals_simps)
  have 5: "file_content w' hist =
             file_content w hist @ concat (map snd (history_writes (step @ evs)))"
    if "hist \<notin> set (x # rest)"
  proof -
    from that have "hist \<noteq> x" and "hist \<notin> set rest" by auto
    then show ?thesis using c hc by (simp add: history_writes_simps)
  qed
  show ?thesis
    unfolding glacier_run_ok_def using 1 2 3 4 5 6 by blast
qed

lemma upload_list_to_glacier_run:
  "\<exists>evs. glacier_run_ok hist files w
           (snd (upload_list_to_glacier r vault access secret files hist w)) evs"
proof (induction files arbitrary: w)
  case Nil
  have "glacier_run_ok hist [] w w []"
    by (simp add: glacier_run_ok_def history_writes_simps glacier_successes_simps
        removals_simps upload_successes_simps)
  then show ?case by auto
next
  case (Cons x rest)
  show ?case
  proof (cases "fs w x")
    case None
    show ?thesis
    proof (cases "x \<in> dirs w")
      case True
      have "glacier_run_ok hist (x # rest) w
         (snd (upload_list_to_glacier r vault access secret (x # rest) hist w)) []"
        unfolding upload_list_to_glacier_directory [OF None True]
        by (simp add: glacier_run_ok_def history_writes_simps glacier_successes_simps
            removals_simps upload_successes_simps)
      then show ?thesis by blast
    next
      case False
      let ?step = "[Log ERROR (''Can'' @ [CHR 0x27] @ ''t open src_data'')]"
      let ?w1 = "w\<lparr>trace := trace w @ ?step\<rparr>"
      obtain evs where
        "glacier_run_ok hist rest ?w1
           (snd (upload_list_to_glacier r vault access secret rest hist ?w1)) evs"
        using Cons.IH by blast
      then have "glacier_run_ok hist (x # rest) w
           (snd (upload_list_to_glacier r vault access secret rest hist ?w1)) (?step @ evs)"
        by (rule glacier_run_ok_step)
           (simp_all add: history_writes_simps glacier_successes_simps removals_simps
              upload_successes_simps file_content_def)
      then show ?thesis
        unfolding upload_list_to_glacier_missing [OF None False] by blast
    qed
  next
    case (Some c)
    show ?thesis
    proof (cases "glacier_upload_archive r access secret vault (SrcStr x) c")
      case (Inl err)
      show ?thesis
      proof (cases err)
        case (ClientError m)
        with Inl have
          out: "glacier_upload_archive r access secret vault (SrcStr x) c =
                  Inl (ClientError m)"
          by simp
        have "glacier_run_ok hist (x # rest) w
           (snd (upload_list_to_glacier r vault access secret (x # rest) hist w))
           [FileOpened x, GlacierUpload vault (SrcStr x) c (Inl (ClientError m)),
            Log DEBUG m,
            Log ERROR (x @ '' was not uploaded to '' @ vault), FileClosed x]"
          unfolding upload_list_to_glacier_client_error [OF Some out]
          by (simp add: glacier_run_ok_def history_writes_simps glacier_successes_simps
              removals_simps upload_successes_simps file_content_def)
        then show ?thesis by blast
      next
        case (OtherError e)
        with Inl have
          out: "glacier_upload_archive r access secret vault (SrcStr x) c =
                  Inl (OtherError e)"
          by simp
        have "glacier_run_ok hist (x # rest) w
           (snd (upload_list_to_glacier r vault access secret (x # rest) hist w))
           [FileOpened x, GlacierUpload vault (SrcStr x) c (Inl (OtherError e))]"
          unfolding upload_list_to_glacier_other_error [OF Some out]
          by (simp add: glacier_run_ok_def history_writes_simps glacier_successes_simps
              removals_simps upload_successes_simps file_content_def)
        then show ?thesis by blast
      qed
    next
      case (Inr arch)
      show ?thesis
      proof (cases "arch = []")
        case True
        let ?step = "[FileOpened x, GlacierUpload vault (SrcStr x) c (Inr []), FileClosed x]"
        let ?w1 = "w\<lparr>trace := trace w @ ?step\<rparr>"
        from Inr True have
          out: "glacier_upload_archive r access secret vault (SrcStr x) c = Inr []"
          by simp
        obtain evs where
          "glacier_run_ok hist rest ?w1
             (snd (upload_list_to_glacier r vault access secret rest hist ?w1)) evs"
          using Cons.IH by blast
        then have "glacier_run_ok hist (x # rest) w
             (snd (upload_list_to_glacier r vault access secret rest hist ?w1)) (?step @ evs)"
          by (rule glacier_run_ok_step)
             (simp_all add: history_writes_simps glacier_successes_simps removals_simps
                upload_successes_simps file_content_def)
        then show ?thesis
          unfolding upload_list_to_glacier_empty_response [OF Some out] by blast
      next
        case False
        let ?enc = "json_dumps (dict_get arch ''archiveId'')"
        let ?step = "[FileOpened x, GlacierUpload vault (SrcStr x) c (Inr arch), FileClosed x,
                 HistoryAppended hist ?enc,
                 Log INFO (''File '' @ x @ '' added to '' @ vault),
                 Log DEBUG (''Trying to remove file '' @ x),
                 FileRemoved x,
                 Log DEBUG (''File '' @ x @ '' removed'')]"
        let ?w1 = "w\<lparr>fs := ((fs w)(hist \<mapsto> file_content w hist @ ?enc))(x := None),
                     trace := trace w @ ?step\<rparr>"
        obtain evs where
          "glacier_run_ok hist rest ?w1
             (snd (upload_list_to_glacier r vault access secret rest hist ?w1)) evs"
          using Cons.IH by blast
        then have "glacier_run_ok hist (x # rest) w
             (snd (upload_list_to_glacier r vault access secret rest hist ?w1)) (?step @ evs)"
          by (rule glacier_run_ok_step)
             (simp_all add: False history_writes_simps glacier_successes_simps
                removals_simps upload_successes_simps file_content_def)
        then show ?thesis
          unfolding upload_list_to_glacier_success [OF Some Inr False] by blast
      qed
    qed
  qed
qed

lemma upload_list_to_glacier_removals:
  "map SrcStr (removals (run_events w
      (snd (upload_list_to_glacier r vault access secret files hist w)))) =
   map fst (glacier_successes (run_events w
      (snd (upload_list_to_glacier r vault access secret files hist w))))"
proof -
  obtain evs where
    "glacier_run_ok hist files w
       (snd (upload_list_to_glacier r vault access secret files hist w)) evs"
    using upload_list_to_glacier_run by blast
  then show ?thesis
    by (simp add: glacier_run_ok_def run_events_append)
qed



subsection \<open>Removal and success, over a whole run\<close>






subsection \<open>The exit status of a run that found files\<close>

text \<open>
  Where the exit status is 0 as intended: in bucket mode when no remote call
  raises an exception other than \<open>ClientError\<close>, and in archive-vault mode when
  every remote call returns and no located path is a directory (files that do
  not exist and empty responses do not matter).
\<close>

lemma upload_list_to_glacier_returns:
  assumes "\<And>x c. \<exists>arch. glacier_upload_archive r access secret vault (SrcStr x) c = Inr arch"
    and "\<And>x. x \<in> set files \<Longrightarrow> x \<notin> dirs w"
  shows "fst (upload_list_to_glacier r vault access secret files hist w) = Inr ()"
  using assms(2)
proof (induction files arbitrary: w)
  case Nil
  show ?case by simp
next
  case (Cons x rest)
  have nd: "x \<notin> dirs w" using Cons.prems by simp
  show ?case
  proof (cases "fs w x")
    case None
    show ?thesis
      unfolding upload_list_to_glacier_missing [OF None nd]
      using Cons.prems by (intro Cons.IH) simp
  next
    case (Some c)
    obtain arch where out: "glacier_upload_archive r access secret vault (SrcStr x) c = Inr arch"
      using assms(1) by blast
    show ?thesis
    proof (cases "arch = []")
      case True
      with out have e: "glacier_upload_archive r access secret vault (SrcStr x) c = Inr []"
        by simp
      show ?thesis
        unfolding upload_list_to_glacier_empty_response [OF Some e]
        using Cons.prems by (intro Cons.IH) simp
    next
      case False
      show ?thesis
        unfolding upload_list_to_glacier_success [OF Some out False]
        using Cons.prems by (intro Cons.IH) simp
    qed
  qed
qed

lemma main_s3_exits_0:
  assumes "fst (find_backup (backup_dir a) (backup_ext a) w) \<noteq> []"
    and "mode a \<noteq> ''glacier''"
    and "\<And>f e. s3_upload_file r (access_key a) (secret_key a) f (bucket_name a) (basename f)
           \<noteq> Inl (OtherError e)"
  shows "fst (main r a w) = Inl (SystemExit 0)"
proof -
  obtain bs w2 where
    fb: "find_backup (backup_dir a) (backup_ext a) (logging INFO ''Start'' w) = (bs, w2)"
    by (cases "find_backup (backup_dir a) (backup_ext a) (logging INFO ''Start'' w)")
  have "fst (find_backup (backup_dir a) (backup_ext a) (logging INFO ''Start'' w)) \<noteq> []"
    using assms(1)
      find_backup_loop_world_indep
        [of "backup_dir a" "backup_ext a" _ "[]" "logging INFO ''Start'' w" w]
    by (simp add: find_backup_def logging_simps)
  with fb have ne: "bs \<noteq> []" by simp
  obtain res w3 where
    up: "upload_list_to_s3 r (bucket_name a) (access_key a) (secret_key a) bs w2 = (res, w3)"
    by (cases "upload_list_to_s3 r (bucket_name a) (access_key a) (secret_key a) bs w2")
  have "fst (upload_list_to_s3 r (bucket_name a) (access_key a) (secret_key a) bs w2) = Inr ()"
    using assms(3) by (intro upload_list_to_s3_returns) simp
  with up have "res = Inr ()" by simp
  then show ?thesis
    using ne assms(2) by (simp add: main_def Let_def fb up shutdown_def)
qed

lemma main_glacier_exits_0:
  assumes "fst (find_backup (backup_dir a) (backup_ext a) w) \<noteq> []"
    and "mode a = ''glacier''"
    and "\<And>x c. \<exists>arch.
           glacier_upload_archive r (access_key a) (secret_key a) (vault_name a) (SrcStr x) c
             = Inr arch"
    and "\<And>x. x \<in> set (fst (find_backup (backup_dir a) (backup_ext a) w)) \<Longrightarrow> x \<notin> dirs w"
  shows "fst (main r a w) = Inl (SystemExit 0)"
proof -
  obtain bs w2 where
    fb: "find_backup (backup_dir a) (backup_ext a) (logging INFO ''Start'' w) = (bs, w2)"
    by (cases "find_backup (backup_dir a) (backup_ext a) (logging INFO ''Start'' w)")
  have same: "fst (find_backup (backup_dir a) (backup_ext a) (logging INFO ''Start'' w)) =
          fst (find_backup (backup_dir a) (backup_ext a) w)"
    using find_backup_loop_world_indep
        [of "backup_dir a" "backup_ext a" _ "[]" "logging INFO ''Start'' w" w]
    by (simp add: find_backup_def logging_simps)
  with fb assms(1) have ne: "bs \<noteq> []" by simp
  have "dirs (snd (find_backup (backup_dir a) (backup_ext a) (logging INFO ''Start'' w))) =
          dirs (logging INFO ''Start'' w)"
    unfolding find_backup_def by (simp add: find_backup_loop_frame)
  then have d2: "dirs w2 = dirs w"
    unfolding fb by (simp add: logging_simps)
  have nd: "\<And>x. x \<in> set bs \<Longrightarrow> x \<notin> dirs w2"
    using assms(4) same fb by (simp add: d2)
  obtain res w3 where
    up: "upload_list_to_glacier r (vault_name a) (access_key a) (secret_key a) bs
           (history_file a) w2 = (res, w3)"
    by (cases "upload_list_to_glacier r (vault_name a) (access_key a) (secret_key a) bs
           (history_file a) w2")
  have "fst (upload_list_to_glacier r (vault_name a) (access_key a) (secret_key a) bs
           (history_file a) w2) = Inr ()"
    using assms(3) nd by (rule upload_list_to_glacier_returns)
  with up have "res = Inr ()" by simp
  then show ?thesis
    using ne assms(2) by (simp add: main_def Let_def fb up shutdown_def)
qed

end
